theory Spec2Isabelle
  imports Main "HOL-Library.AList"
begin

section \<open>Values, errors and the database driver\<close>

text \<open>
  The module \<^verbatim>\<open>db.py\<close> keeps its state in two module globals: \<^verbatim>\<open>engine\<close> (the
  connection factory) and \<^verbatim>\<open>_db_ctx\<close> (a \<^verbatim>\<open>threading.local\<close> with the fields
  \<^verbatim>\<open>connection\<close> and \<^verbatim>\<open>transactions\<close>). One thread is modelled: its view of both
  globals is the record \<open>world\<close>, passed through every function and returned updated.
  Exceptions are values of the type \<open>error\<close>.
\<close>

datatype pval = S string | I int

datatype error =
    DBError
  | AttributeError
  | AssertionError
  | KeyError
  | ValueError
  | TypeError
  | DriverError nat
  | UserError nat

text \<open>
  The driver (\<^verbatim>\<open>pymysql\<close>) is outside the repository. Every call the module makes to it is
  written to a trace, together with its outcome (\<open>None\<close>: the call returned, \<open>Some n\<close>:
  it raised the driver's error number \<open>n\<close>). What the driver does is a parameter: a function
  of the trace so far and of the call. A raw connection is a handle (a number); a cursor is
  named by the handle of its connection.

  Three more events record that a method of the module itself was entered:
  \<open>CommitDecision\<close> for \<^verbatim>\<open>_Transactions.commit\<close>, \<open>RollbackDecision\<close> for
  \<^verbatim>\<open>_Transactions.rollback\<close> and \<open>Cleanup\<close> for \<^verbatim>\<open>_Dbctx.cleanup\<close>. They change nothing
  else in the state.
\<close>

datatype drv_call =
    Connect nat
  | Cursor nat
  | Execute nat string "pval list"
  | Commit nat
  | Rollback nat
  | Close nat
  | CursorClose nat

datatype event =
    CommitDecision
  | RollbackDecision
  | Cleanup
  | Drv drv_call "nat option"

record driver =
  raises :: "event list \<Rightarrow> drv_call \<Rightarrow> nat option"
  rowcount :: "event list \<Rightarrow> int"

datatype Engine = Engine "string \<rightharpoonup> pval"

record LazyConnection =
  connection :: "nat option"

record world =
  engine :: "Engine option"
  ctx_connection :: "LazyConnection option"
  ctx_transactions :: int
  trace :: "event list"

definition log_event :: "event \<Rightarrow> world \<Rightarrow> world" where
  "log_event e w = w\<lparr>trace := trace w @ [e]\<rparr>"

definition drv_do :: "driver \<Rightarrow> drv_call \<Rightarrow> world \<Rightarrow> error option \<times> world" where
  "drv_do drv c w =
     (let x = raises drv (trace w) c
      in (map_option DriverError x, log_event (Drv c x) w))"

definition exc_of :: "error + 'a \<Rightarrow> error option" where
  "exc_of r = (case r of Inl e \<Rightarrow> Some e | Inr _ \<Rightarrow> None)"

section \<open>create\_engine\<close>

text \<open>
  \<^verbatim>\<open>create_engine(username, password, database, host, port, **kwargs)\<close>: raises
  \<^verbatim>\<open>DBError\<close> when \<^verbatim>\<open>engine\<close> is set; otherwise builds the parameter dictionary
  (the two defaults are taken from \<^verbatim>\<open>kwargs\<close> when given, then the rest of
  \<^verbatim>\<open>kwargs\<close> is merged in) and stores the engine.
\<close>

definition engine_params ::
  "pval \<Rightarrow> pval \<Rightarrow> pval \<Rightarrow> pval \<Rightarrow> pval \<Rightarrow> (string \<rightharpoonup> pval) \<Rightarrow> (string \<rightharpoonup> pval)" where
  "engine_params username password database host port kwargs =
     (let params = [''user'' \<mapsto> username, ''passwd'' \<mapsto> password, ''db'' \<mapsto> database,
                    ''host'' \<mapsto> host, ''port'' \<mapsto> port];
          params1 = params(''charset'' \<mapsto>
                      (case kwargs ''charset'' of Some v \<Rightarrow> v | None \<Rightarrow> S ''utf8mb4''));
          kwargs1 = kwargs(''charset'' := None);
          params2 = params1(''use_unicode'' \<mapsto>
                      (case kwargs1 ''use_unicode'' of Some v \<Rightarrow> v | None \<Rightarrow> S ''True''));
          kwargs2 = kwargs1(''use_unicode'' := None)
      in params2 ++ kwargs2)"

definition create_engine ::
  "pval \<Rightarrow> pval \<Rightarrow> pval \<Rightarrow> pval \<Rightarrow> pval \<Rightarrow> (string \<rightharpoonup> pval) \<Rightarrow> world
     \<Rightarrow> error option \<times> world" where
  "create_engine username password database host port kwargs w =
     (if engine w \<noteq> None then (Some DBError, w)
      else (None, w\<lparr>engine := Some (Engine (engine_params username password database host port kwargs))\<rparr>))"

definition Engine_connect :: "driver \<Rightarrow> world \<Rightarrow> (error + nat) \<times> world" where
  "Engine_connect drv w =
     (case engine w of
        None \<Rightarrow> (Inl AttributeError, w)
      | Some e \<Rightarrow>
          (let c = length (trace w)
           in case drv_do drv (Connect c) w of
                (Some err, w1) \<Rightarrow> (Inl err, w1)
              | (None, w1) \<Rightarrow> (Inr c, w1)))"

section \<open>\_LazyConnection\<close>

text \<open>
  The methods take the object (\<open>self\<close>) and return it updated where they assign to
  \<^verbatim>\<open>self.connection\<close>. \<^verbatim>\<open>commit\<close> and \<^verbatim>\<open>rollback\<close> call the method on
  \<^verbatim>\<open>self.connection\<close> with no test: on \<^verbatim>\<open>None\<close> Python raises
  \<^verbatim>\<open>AttributeError\<close>.
\<close>

definition open_cursor ::
  "driver \<Rightarrow> nat \<Rightarrow> LazyConnection \<Rightarrow> world \<Rightarrow> (error + nat) \<times> LazyConnection \<times> world" where
  "open_cursor drv c self w =
     (case drv_do drv (Cursor c) w of
        (Some err, w1) \<Rightarrow> (Inl err, self, w1)
      | (None, w1) \<Rightarrow> (Inr c, self, w1))"

definition LazyConnection_cursor ::
  "driver \<Rightarrow> LazyConnection \<Rightarrow> world \<Rightarrow> (error + nat) \<times> LazyConnection \<times> world" where
  "LazyConnection_cursor drv self w =
     (case connection self of
        None \<Rightarrow>
          (case Engine_connect drv w of
             (Inl err, w1) \<Rightarrow> (Inl err, self, w1)
           | (Inr c, w1) \<Rightarrow> open_cursor drv c (self\<lparr>connection := Some c\<rparr>) w1)
      | Some c \<Rightarrow> open_cursor drv c self w)"

definition LazyConnection_commit :: "driver \<Rightarrow> LazyConnection \<Rightarrow> world \<Rightarrow> error option \<times> world" where
  "LazyConnection_commit drv self w =
     (case connection self of
        None \<Rightarrow> (Some AttributeError, w)
      | Some c \<Rightarrow> drv_do drv (Commit c) w)"

definition LazyConnection_rollback :: "driver \<Rightarrow> LazyConnection \<Rightarrow> world \<Rightarrow> error option \<times> world" where
  "LazyConnection_rollback drv self w =
     (case connection self of
        None \<Rightarrow> (Some AttributeError, w)
      | Some c \<Rightarrow> drv_do drv (Rollback c) w)"

definition LazyConnection_cleanup ::
  "driver \<Rightarrow> LazyConnection \<Rightarrow> world \<Rightarrow> error option \<times> LazyConnection \<times> world" where
  "LazyConnection_cleanup drv self w =
     (case connection self of
        None \<Rightarrow> (None, self, w)
      | Some c \<Rightarrow>
          (case drv_do drv (Close c) w of
             (r, w1) \<Rightarrow> (r, self\<lparr>connection := None\<rparr>, w1)))"

section \<open>\_Dbctx\<close>

definition Dbctx_new :: "world \<Rightarrow> bool" where
  "Dbctx_new w = (ctx_connection w = None \<and> ctx_transactions w = 0)"

definition Dbctx_is_init :: "world \<Rightarrow> bool" where
  "Dbctx_is_init w = (\<not> (ctx_connection w = None))"

definition Dbctx_init :: "world \<Rightarrow> world" where
  "Dbctx_init w = w\<lparr>ctx_connection := Some \<lparr>connection = None\<rparr>, ctx_transactions := 0\<rparr>"

definition Dbctx_cleanup :: "driver \<Rightarrow> world \<Rightarrow> error option \<times> world" where
  "Dbctx_cleanup drv w =
     (let w0 = log_event Cleanup w
      in case ctx_connection w0 of
           None \<Rightarrow> (Some AttributeError, w0)
         | Some self \<Rightarrow>
             (case LazyConnection_cleanup drv self w0 of
                (Some err, self1, w1) \<Rightarrow> (Some err, w1\<lparr>ctx_connection := Some self1\<rparr>)
              | (None, self1, w1) \<Rightarrow> (None, w1\<lparr>ctx_connection := None\<rparr>)))"

text \<open>The expressions \<^verbatim>\<open>_db_ctx.connection.cursor()\<close>, \<^verbatim>\<open>.commit()\<close> and
  \<^verbatim>\<open>.rollback()\<close>, as the scopes and the statement executors write them.\<close>

definition ctx_connection_cursor :: "driver \<Rightarrow> world \<Rightarrow> (error + nat) \<times> world" where
  "ctx_connection_cursor drv w =
     (case ctx_connection w of
        None \<Rightarrow> (Inl AttributeError, w)
      | Some self \<Rightarrow>
          (case LazyConnection_cursor drv self w of
             (r, self1, w1) \<Rightarrow> (r, w1\<lparr>ctx_connection := Some self1\<rparr>)))"

definition ctx_connection_commit :: "driver \<Rightarrow> world \<Rightarrow> error option \<times> world" where
  "ctx_connection_commit drv w =
     (case ctx_connection w of
        None \<Rightarrow> (Some AttributeError, w)
      | Some self \<Rightarrow> LazyConnection_commit drv self w)"

definition ctx_connection_rollback :: "driver \<Rightarrow> world \<Rightarrow> error option \<times> world" where
  "ctx_connection_rollback drv w =
     (case ctx_connection w of
        None \<Rightarrow> (Some AttributeError, w)
      | Some self \<Rightarrow> LazyConnection_rollback drv self w)"

section \<open>\_ConnectionCtx and \_Transactions\<close>

text \<open>
  \<^verbatim>\<open>__enter__\<close> returns the flag it stores on the scope object
  (\<^verbatim>\<open>should_cleanup\<close>, \<^verbatim>\<open>should_close_conn\<close>); \<^verbatim>\<open>__exit__\<close> takes it back, with
  \<^verbatim>\<open>exc_type\<close> (\<open>None\<close> when the body returned). An \<^verbatim>\<open>__exit__\<close> returns \<open>None\<close> or
  raises; it never returns a true value, so it never suppresses the body's exception.
\<close>

definition ConnectionCtx_enter :: "world \<Rightarrow> bool \<times> world" where
  "ConnectionCtx_enter w =
     (if \<not> Dbctx_is_init w then (True, Dbctx_init w) else (False, w))"

definition ConnectionCtx_exit :: "driver \<Rightarrow> bool \<Rightarrow> error option \<Rightarrow> world \<Rightarrow> error option \<times> world" where
  "ConnectionCtx_exit drv should_cleanup exc_type w =
     (if should_cleanup then Dbctx_cleanup drv w else (None, w))"

definition Transactions_enter :: "world \<Rightarrow> bool \<times> world" where
  "Transactions_enter w =
     (let (should_close_conn, w1) =
            (if \<not> Dbctx_is_init w then (True, Dbctx_init w) else (False, w))
      in (should_close_conn, w1\<lparr>ctx_transactions := ctx_transactions w1 + 1\<rparr>))"

definition Transactions_commit :: "driver \<Rightarrow> world \<Rightarrow> error option \<times> world" where
  "Transactions_commit drv w =
     (case ctx_connection_commit drv (log_event CommitDecision w) of
        (None, w1) \<Rightarrow> (None, w1)
      | (Some err, w1) \<Rightarrow> ctx_connection_rollback drv w1)"

definition Transactions_rollback :: "driver \<Rightarrow> world \<Rightarrow> error option \<times> world" where
  "Transactions_rollback drv w = ctx_connection_rollback drv (log_event RollbackDecision w)"

definition Transactions_exit :: "driver \<Rightarrow> bool \<Rightarrow> error option \<Rightarrow> world \<Rightarrow> error option \<times> world" where
  "Transactions_exit drv should_close_conn exc_type w =
     (let w1 = w\<lparr>ctx_transactions := ctx_transactions w - 1\<rparr>;
          (r, w2) =
            (if ctx_transactions w1 = 0 then
               (if exc_type = None then Transactions_commit drv w1
                else Transactions_rollback drv w1)
             else (None, w1))
      in if should_close_conn then
           (case Dbctx_cleanup drv w2 of
              (Some err, w3) \<Rightarrow> (Some err, w3)
            | (None, w3) \<Rightarrow> (r, w3))
         else (r, w2))"

text \<open>
  The decorators \<^verbatim>\<open>with_connection\<close> and \<^verbatim>\<open>with_transaction\<close> run the decorated
  function inside a \<^verbatim>\<open>with\<close> statement: enter, the body, then exit on every path. An
  exception raised by \<^verbatim>\<open>__exit__\<close> replaces the body's outcome; otherwise the body's
  value is returned or its exception raised again.
\<close>

definition with_connection ::
  "driver \<Rightarrow> (world \<Rightarrow> (error + 'a) \<times> world) \<Rightarrow> world \<Rightarrow> (error + 'a) \<times> world" where
  "with_connection drv func w =
     (let (should_cleanup, w1) = ConnectionCtx_enter w;
          (r, w2) = func w1;
          (x, w3) = ConnectionCtx_exit drv should_cleanup (exc_of r) w2
      in case x of Some err \<Rightarrow> (Inl err, w3) | None \<Rightarrow> (r, w3))"

definition with_transaction ::
  "driver \<Rightarrow> (world \<Rightarrow> (error + 'a) \<times> world) \<Rightarrow> world \<Rightarrow> (error + 'a) \<times> world" where
  "with_transaction drv func w =
     (let (should_close_conn, w1) = Transactions_enter w;
          (r, w2) = func w1;
          (x, w3) = Transactions_exit drv should_close_conn (exc_of r) w2
      in case x of Some err \<Rightarrow> (Inl err, w3) | None \<Rightarrow> (r, w3))"

section \<open>Statement executors\<close>

text \<open>
  \<^verbatim>\<open>_update\<close> is the function below wrapped by \<^verbatim>\<open>with_connection\<close>. Its
  \<^verbatim>\<open>try ... finally\<close> closes the cursor when one was obtained; an exception of
  \<^verbatim>\<open>cursor.close()\<close> replaces the outcome of the \<^verbatim>\<open>try\<close> block.
  \<^verbatim>\<open>not _db_ctx.transactions\<close> is true exactly when the counter is \<open>0\<close>.
\<close>

definition replace_placeholders :: "string \<Rightarrow> string" where
  "replace_placeholders sql = concat (map (\<lambda>ch. if ch = CHR ''?'' then ''%s'' else [ch]) sql)"

definition update_body :: "driver \<Rightarrow> string \<Rightarrow> pval list \<Rightarrow> world \<Rightarrow> (error + int) \<times> world" where
  "update_body drv sql args w =
     (let sql1 = replace_placeholders sql
      in case ctx_connection_cursor drv w of
           (Inl err, w1) \<Rightarrow> (Inl err, w1)
         | (Inr cursor, w1) \<Rightarrow>
             (let (r, w4) =
                    (case drv_do drv (Execute cursor sql1 args) w1 of
                       (Some err, w2) \<Rightarrow> (Inl err, w2)
                     | (None, w2) \<Rightarrow>
                         (let row_count = rowcount drv (trace w2)
                          in if ctx_transactions w2 = 0 then
                               (case ctx_connection_commit drv w2 of
                                  (Some err, w3) \<Rightarrow> (Inl err, w3)
                                | (None, w3) \<Rightarrow> (Inr row_count, w3))
                             else (Inr row_count, w2)))
              in case drv_do drv (CursorClose cursor) w4 of
                   (Some err, w5) \<Rightarrow> (Inl err, w5)
                 | (None, w5) \<Rightarrow> (r, w5)))"

definition update_decorated :: "driver \<Rightarrow> string \<Rightarrow> pval list \<Rightarrow> world \<Rightarrow> (error + int) \<times> world" where
  "update_decorated drv sql args w = with_connection drv (update_body drv sql args) w"

definition update :: "driver \<Rightarrow> string \<Rightarrow> pval list \<Rightarrow> world \<Rightarrow> (error + int) \<times> world" where
  "update drv sql args w = update_decorated drv sql args w"

fun join :: "string \<Rightarrow> string list \<Rightarrow> string" where
  "join sep [] = []"
| "join sep [x] = x"
| "join sep (x # y # ys) = x @ sep @ join sep (y # ys)"

definition insert_sql :: "string \<Rightarrow> string list \<Rightarrow> string" where
  "insert_sql table_name cols =
     ''insert into `'' @ table_name @ ''` ('' @ join '','' (map (\<lambda>col. ''`'' @ col @ ''`'') cols)
       @ '') values('' @ join '','' (map (\<lambda>_. ''?'') cols) @ '')''"

text \<open>\<^verbatim>\<open>insert(table_name, **kwargs)\<close>. The keyword arguments are the columns, in
  the order given; they are a dictionary, so no name occurs twice (the theorems about
  \<open>insert_stmt\<close> ask for distinct names). A column named \<open>table_name\<close> cannot be
  passed: the name is the function's own parameter, and the call raises
  \<^verbatim>\<open>TypeError\<close> before the body runs. In the body,
  \<^verbatim>\<open>zip(*kwargs.items())\<close> is empty when no column is given, and unpacking it into
  two names raises \<^verbatim>\<open>ValueError\<close>.\<close>

definition insert_stmt ::
  "driver \<Rightarrow> string \<Rightarrow> (string \<times> pval) list \<Rightarrow> world \<Rightarrow> (error + int) \<times> world" where
  "insert_stmt drv table_name kwargs w =
     (if ''table_name'' \<in> set (map fst kwargs) then (Inl TypeError, w)
      else if kwargs = [] then (Inl ValueError, w)
      else update_decorated drv (insert_sql table_name (map fst kwargs)) (map snd kwargs) w)"

section \<open>Field\<close>

text \<open>
  \<^verbatim>\<open>Field\<close> is a subclass of \<^verbatim>\<open>dict\<close>: an association list in insertion order with
  distinct keys, where storing under a key that is present replaces the value in place
  and storing under a new key appends (\<open>AList.update\<close>).

  Python resolves \<^verbatim>\<open>r.n\<close> by the normal lookup first (the attributes of the classes
  \<^verbatim>\<open>Field\<close>, \<^verbatim>\<open>dict\<close> and \<^verbatim>\<open>object\<close>; the instance dictionary stays empty, since
  \<^verbatim>\<open>__setattr__\<close> stores items) and calls \<^verbatim>\<open>__getattr__\<close> only when that fails. The
  names found by the normal lookup are the parameter \<open>class_attrs\<close>;
  \<open>dict_methods\<close> are the public methods every \<^verbatim>\<open>dict\<close> has, so any set of class
  attributes of \<^verbatim>\<open>Field\<close> includes them.
\<close>

type_synonym 'v Field = "(string \<times> 'v) list"

datatype 'v attr = Stored 'v | ClassAttr string

definition Field_init :: "string list \<Rightarrow> 'v list \<Rightarrow> (string \<times> 'v) list \<Rightarrow> 'v Field" where
  "Field_init keys values kwargs =
     fold (\<lambda>(k, v) self. AList.update k v self) (kwargs @ zip keys values) []"

definition Field_getitem :: "'v Field \<Rightarrow> string \<Rightarrow> error + 'v" where
  "Field_getitem self item = (case map_of self item of None \<Rightarrow> Inl KeyError | Some v \<Rightarrow> Inr v)"

definition Field_getattr :: "'v Field \<Rightarrow> string \<Rightarrow> error + 'v" where
  "Field_getattr self item =
     (case Field_getitem self item of
        Inl KeyError \<Rightarrow> Inl AssertionError
      | Inl err \<Rightarrow> Inl err
      | Inr v \<Rightarrow> Inr v)"

definition Field_setattr :: "'v Field \<Rightarrow> string \<Rightarrow> 'v \<Rightarrow> 'v Field" where
  "Field_setattr self key val = AList.update key val self"

definition dict_methods :: "string list" where
  "dict_methods = [''clear'', ''copy'', ''fromkeys'', ''get'', ''items'', ''keys'', ''pop'',
                   ''popitem'', ''setdefault'', ''update'', ''values'']"

definition attribute :: "string list \<Rightarrow> 'v Field \<Rightarrow> string \<Rightarrow> error + 'v attr" where
  "attribute class_attrs self n =
     (if n \<in> set class_attrs then Inr (ClassAttr n)
      else (case Field_getattr self n of Inl err \<Rightarrow> Inl err | Inr v \<Rightarrow> Inr (Stored v)))"

section \<open>Caller code: scoped programs\<close>

text \<open>
  The code that uses the module is any Python program. The statements below are the ones
  that matter to the scopes: doing nothing, raising, sequencing, catching
  (\<^verbatim>\<open>try: a  except Exception: b\<close>), the two scopes around a body, and a call of
  \<^verbatim>\<open>update\<close>. \<open>exec\<close> runs them with Python's rules for exceptions.
\<close>

datatype stmt =
    Pass
  | Raise nat
  | Seq stmt stmt
  | TryExcept stmt stmt
  | WithConnection stmt
  | WithTransaction stmt
  | Update string "pval list"

primrec exec :: "driver \<Rightarrow> stmt \<Rightarrow> world \<Rightarrow> (error + unit) \<times> world" where
  "exec drv Pass = (\<lambda>w. (Inr (), w))"
| "exec drv (Raise n) = (\<lambda>w. (Inl (UserError n), w))"
| "exec drv (Seq a b) =
     (\<lambda>w. case exec drv a w of (Inl err, w1) \<Rightarrow> (Inl err, w1) | (Inr u, w1) \<Rightarrow> exec drv b w1)"
| "exec drv (TryExcept a b) =
     (\<lambda>w. case exec drv a w of (Inl err, w1) \<Rightarrow> exec drv b w1 | (Inr u, w1) \<Rightarrow> (Inr u, w1))"
| "exec drv (WithConnection b) = with_connection drv (exec drv b)"
| "exec drv (WithTransaction b) = with_transaction drv (exec drv b)"
| "exec drv (Update sql args) =
     (\<lambda>w. case update drv sql args w of (Inl err, w1) \<Rightarrow> (Inl err, w1) | (Inr n, w1) \<Rightarrow> (Inr (), w1))"

section \<open>Caller code: sequences of enters and exits\<close>

text \<open>
  The same scopes seen one call at a time: a configuration is the state and the stack of
  the scope objects that are open, each with the flag its \<^verbatim>\<open>__enter__\<close> stored. An exit
  is well nested when the scope on top of the stack is of its kind; it is given the
  \<^verbatim>\<open>exc_type\<close> the interpreter passes.
\<close>

datatype frame = ConnFrame bool | TxnFrame bool

datatype op =
    EnterConnection
  | ExitConnection "error option"
  | EnterTransaction
  | ExitTransaction "error option"
  | CallUpdate string "pval list"

fun step :: "driver \<Rightarrow> op \<Rightarrow> world \<times> frame list \<Rightarrow> (world \<times> frame list) option" where
  "step drv EnterConnection (w, stk) =
     (case ConnectionCtx_enter w of (f, w1) \<Rightarrow> Some (w1, ConnFrame f # stk))"
| "step drv (ExitConnection exc) (w, stk) =
     (case stk of
        ConnFrame f # rest \<Rightarrow> Some (snd (ConnectionCtx_exit drv f exc w), rest)
      | _ \<Rightarrow> None)"
| "step drv EnterTransaction (w, stk) =
     (case Transactions_enter w of (f, w1) \<Rightarrow> Some (w1, TxnFrame f # stk))"
| "step drv (ExitTransaction exc) (w, stk) =
     (case stk of
        TxnFrame f # rest \<Rightarrow> Some (snd (Transactions_exit drv f exc w), rest)
      | _ \<Rightarrow> None)"
| "step drv (CallUpdate sql args) (w, stk) = Some (snd (update drv sql args w), stk)"

fun run :: "driver \<Rightarrow> op list \<Rightarrow> world \<times> frame list \<Rightarrow> (world \<times> frame list) option" where
  "run drv [] c = Some c"
| "run drv (x # xs) c = (case step drv x c of None \<Rightarrow> None | Some c1 \<Rightarrow> run drv xs c1)"

definition decisions :: "event list \<Rightarrow> event list" where
  "decisions tr = filter (\<lambda>e. e = CommitDecision \<or> e = RollbackDecision) tr"

text \<open>The module state right after import: \<^verbatim>\<open>engine = None\<close> and a fresh
  \<^verbatim>\<open>_Dbctx()\<close>.\<close>

definition initial_world :: world where
  "initial_world = \<lparr>engine = None, ctx_connection = None, ctx_transactions = 0, trace = []\<rparr>"

text \<open>A driver whose calls all return, with a row count of \<open>1\<close>; and one whose
  \<^verbatim>\<open>commit\<close> raises error \<open>7\<close> and whose \<^verbatim>\<open>rollback\<close> raises error \<open>9\<close>. They
  are inputs for the concrete runs below.\<close>

definition ok_driver :: driver where
  "ok_driver = \<lparr>raises = (\<lambda>h c. None), rowcount = (\<lambda>h. 1)\<rparr>"

definition failing_driver :: driver where
  "failing_driver =
     \<lparr>raises = (\<lambda>h c. case c of Commit n \<Rightarrow> Some 7 | Rollback n \<Rightarrow> Some 9 | _ \<Rightarrow> None),
      rowcount = (\<lambda>h. 1)\<rparr>"

text \<open>A driver whose \<^verbatim>\<open>close\<close> raises too (error \<open>5\<close>), and one where only
  \<^verbatim>\<open>cursor.close()\<close> raises (error \<open>6\<close>).\<close>

definition close_failing_driver :: driver where
  "close_failing_driver =
     \<lparr>raises = (\<lambda>h c. case c of Commit n \<Rightarrow> Some 7 | Rollback n \<Rightarrow> Some 9
                                 | Close n \<Rightarrow> Some 5 | _ \<Rightarrow> None),
      rowcount = (\<lambda>h. 1)\<rparr>"

definition cursor_close_failing_driver :: driver where
  "cursor_close_failing_driver =
     \<lparr>raises = (\<lambda>h c. case c of CursorClose n \<Rightarrow> Some 6 | _ \<Rightarrow> None),
      rowcount = (\<lambda>h. 1)\<rparr>"

text \<open>A state inside a transaction scope (depth \<open>1\<close>) whose raw connection \<open>0\<close> is
  open.\<close>

definition world5 :: world where
  "world5 = \<lparr>engine = Some (Engine Map.empty), ctx_connection = Some \<lparr>connection = Some 0\<rparr>,
              ctx_transactions = 1, trace = [Drv (Connect 0) None]\<rparr>"

text \<open>The state after \<^verbatim>\<open>create_engine\<close> as the module's own script calls it.\<close>

definition started_world :: world where
  "started_world =
     snd (create_engine (S ''root'') (S ''2014081029'') (S ''test'') (S ''localhost'') (I 3306)
            Map.empty initial_world)"

text \<open>Which frames are transaction scopes, and which hold a true flag (the scope set up
  the connection and will clean it up).\<close>

fun is_txn :: "frame \<Rightarrow> bool" where
  "is_txn (TxnFrame f) = True"
| "is_txn (ConnFrame f) = False"

fun owns :: "frame \<Rightarrow> bool" where
  "owns (TxnFrame f) = f"
| "owns (ConnFrame f) = f"

text \<open>What holds of every configuration a well-nested sequence reaches: the counter is
  the number of open transaction scopes, an open scope means an initialised context, and
  only the outermost open scope can hold a true flag.\<close>

definition invar :: "world \<times> frame list \<Rightarrow> bool" where
  "invar c = (case c of (w, stk) \<Rightarrow>
     ctx_transactions w = int (length (filter is_txn stk))
     \<and> (stk \<noteq> [] \<longrightarrow> Dbctx_is_init w)
     \<and> (\<forall>f \<in> set (butlast stk). \<not> owns f))"

section \<open>Basic facts\<close>

lemma log_event_fields [simp]:
  "engine (log_event e w) = engine w"
  "ctx_connection (log_event e w) = ctx_connection w"
  "ctx_transactions (log_event e w) = ctx_transactions w"
  "trace (log_event e w) = trace w @ [e]"
  by (simp_all add: log_event_def)

lemma drv_do_fields [simp]:
  "engine (snd (drv_do drv c w)) = engine w"
  "ctx_connection (snd (drv_do drv c w)) = ctx_connection w"
  "ctx_transactions (snd (drv_do drv c w)) = ctx_transactions w"
  "trace (snd (drv_do drv c w)) = trace w @ [Drv c (raises drv (trace w) c)]"
  "fst (drv_do drv c w) = map_option DriverError (raises drv (trace w) c)"
  by (simp_all add: drv_do_def Let_def)

lemmas scope_defs = ConnectionCtx_enter_def ConnectionCtx_exit_def Transactions_enter_def
  Transactions_exit_def Transactions_commit_def Transactions_rollback_def
  ctx_connection_commit_def ctx_connection_rollback_def LazyConnection_commit_def
  LazyConnection_rollback_def Dbctx_cleanup_def LazyConnection_cleanup_def
  Dbctx_is_init_def Dbctx_init_def with_connection_def with_transaction_def exc_of_def

lemma Field_getattr_conv:
  "Field_getattr r n = (case map_of r n of None \<Rightarrow> Inl AssertionError | Some v \<Rightarrow> Inr v)"
  by (simp add: Field_getattr_def Field_getitem_def split: option.splits)

lemma decisions_simps [simp]:
  "decisions [] = []"
  "decisions (xs @ ys) = decisions xs @ decisions ys"
  "decisions (Drv c x # xs) = decisions xs"
  "decisions (Cleanup # xs) = decisions xs"
  "decisions (CommitDecision # xs) = CommitDecision # decisions xs"
  "decisions (RollbackDecision # xs) = RollbackDecision # decisions xs"
  by (simp_all add: decisions_def)

lemma cursor_frame:
  "ctx_transactions (snd (ctx_connection_cursor drv w)) = ctx_transactions w"
  "engine (snd (ctx_connection_cursor drv w)) = engine w"
  "decisions (trace (snd (ctx_connection_cursor drv w))) = decisions (trace w)"
  "Dbctx_is_init (snd (ctx_connection_cursor drv w)) = Dbctx_is_init w"
  by (auto simp: ctx_connection_cursor_def LazyConnection_cursor_def Engine_connect_def
      open_cursor_def drv_do_def Let_def Dbctx_is_init_def
      split: option.splits prod.splits sum.splits)

lemma commit_frame:
  "ctx_transactions (snd (ctx_connection_commit drv w)) = ctx_transactions w"
  "engine (snd (ctx_connection_commit drv w)) = engine w"
  "decisions (trace (snd (ctx_connection_commit drv w))) = decisions (trace w)"
  "ctx_connection (snd (ctx_connection_commit drv w)) = ctx_connection w"
  by (auto simp: ctx_connection_commit_def LazyConnection_commit_def drv_do_def Let_def
      split: option.splits)

lemma rollback_frame:
  "ctx_transactions (snd (ctx_connection_rollback drv w)) = ctx_transactions w"
  "engine (snd (ctx_connection_rollback drv w)) = engine w"
  "decisions (trace (snd (ctx_connection_rollback drv w))) = decisions (trace w)"
  "ctx_connection (snd (ctx_connection_rollback drv w)) = ctx_connection w"
  by (auto simp: ctx_connection_rollback_def LazyConnection_rollback_def drv_do_def Let_def
      split: option.splits)

lemma cleanup_frame:
  "ctx_transactions (snd (Dbctx_cleanup drv w)) = ctx_transactions w"
  "engine (snd (Dbctx_cleanup drv w)) = engine w"
  "decisions (trace (snd (Dbctx_cleanup drv w))) = decisions (trace w)"
  by (auto simp: Dbctx_cleanup_def LazyConnection_cleanup_def drv_do_def Let_def
      split: option.splits prod.splits)

lemma is_init_update [simp]:
  "Dbctx_is_init (w\<lparr>trace := tr\<rparr>) = Dbctx_is_init w"
  "Dbctx_is_init (w\<lparr>ctx_transactions := n\<rparr>) = Dbctx_is_init w"
  "Dbctx_is_init (log_event e w) = Dbctx_is_init w"
  "Dbctx_is_init (snd (drv_do drv c w)) = Dbctx_is_init w"
  "Dbctx_is_init (snd (ctx_connection_commit drv w)) = Dbctx_is_init w"
  "Dbctx_is_init (snd (ctx_connection_rollback drv w)) = Dbctx_is_init w"
  by (simp_all add: Dbctx_is_init_def commit_frame rollback_frame)

lemma update_body_frame:
  "ctx_transactions (snd (update_body drv sql args w)) = ctx_transactions w"
  "engine (snd (update_body drv sql args w)) = engine w"
  "decisions (trace (snd (update_body drv sql args w))) = decisions (trace w)"
  "Dbctx_is_init (snd (update_body drv sql args w)) = Dbctx_is_init w"
  by (simp_all add: update_body_def split_beta Let_def cursor_frame commit_frame
      split: option.splits sum.splits)

lemma update_frame:
  "ctx_transactions (snd (update drv sql args w))
     = (if Dbctx_is_init w then ctx_transactions w else 0)"
  "engine (snd (update drv sql args w)) = engine w"
  "decisions (trace (snd (update drv sql args w))) = decisions (trace w)"
  "Dbctx_is_init w \<Longrightarrow> Dbctx_is_init (snd (update drv sql args w))"
  by (cases "Dbctx_is_init w";
      simp add: update_def update_decorated_def with_connection_def ConnectionCtx_enter_def
        ConnectionCtx_exit_def Dbctx_init_def split_beta Let_def
        update_body_frame cleanup_frame split: option.splits)+

lemma enter_txn_frame:
  "ctx_transactions (snd (Transactions_enter w))
     = (if Dbctx_is_init w then ctx_transactions w + 1 else 1)"
  "engine (snd (Transactions_enter w)) = engine w"
  "trace (snd (Transactions_enter w)) = trace w"
  "Dbctx_is_init (snd (Transactions_enter w))"
  "fst (Transactions_enter w) = (\<not> Dbctx_is_init w)"
  by (simp_all add: Transactions_enter_def Dbctx_is_init_def Dbctx_init_def split_beta)

lemma enter_conn_frame:
  "ctx_transactions (snd (ConnectionCtx_enter w))
     = (if Dbctx_is_init w then ctx_transactions w else 0)"
  "engine (snd (ConnectionCtx_enter w)) = engine w"
  "trace (snd (ConnectionCtx_enter w)) = trace w"
  "Dbctx_is_init (snd (ConnectionCtx_enter w))"
  "fst (ConnectionCtx_enter w) = (\<not> Dbctx_is_init w)"
  by (simp_all add: ConnectionCtx_enter_def Dbctx_is_init_def Dbctx_init_def)

lemma exit_conn_frame:
  "ctx_transactions (snd (ConnectionCtx_exit drv f exc w)) = ctx_transactions w"
  "engine (snd (ConnectionCtx_exit drv f exc w)) = engine w"
  "decisions (trace (snd (ConnectionCtx_exit drv f exc w))) = decisions (trace w)"
  "Dbctx_is_init (snd (ConnectionCtx_exit drv False exc w)) = Dbctx_is_init w"
  "fst (ConnectionCtx_exit drv False exc w) = None"
  by (simp_all add: ConnectionCtx_exit_def cleanup_frame)

lemma exit_txn_frame:
  "ctx_transactions (snd (Transactions_exit drv f exc w)) = ctx_transactions w - 1"
  "engine (snd (Transactions_exit drv f exc w)) = engine w"
  "decisions (trace (snd (Transactions_exit drv f exc w)))
     = decisions (trace w) @
         (if ctx_transactions w = 1
          then [if exc = None then CommitDecision else RollbackDecision] else [])"
  "Dbctx_is_init (snd (Transactions_exit drv False exc w)) = Dbctx_is_init w"
  "ctx_transactions w \<noteq> 1 \<Longrightarrow> fst (Transactions_exit drv False exc w) = None"
  by (simp_all add: Transactions_exit_def Transactions_commit_def Transactions_rollback_def
      split_beta Let_def cleanup_frame commit_frame rollback_frame split: option.splits)

lemma step_invar:
  assumes "invar c" and "step drv x c = Some c1"
  shows "invar c1"
proof -
  obtain w stk where c: "c = (w, stk)" by (cases c)
  show ?thesis
  proof (cases x)
    case EnterConnection
    with assms c show ?thesis
      by (auto simp: invar_def enter_conn_frame split_beta split: if_splits)
  next
    case (ExitConnection exc)
    with assms c show ?thesis
      by (auto simp: invar_def exit_conn_frame split: list.splits frame.splits if_splits)
  next
    case EnterTransaction
    with assms c show ?thesis
      by (auto simp: invar_def enter_txn_frame split_beta split: if_splits)
  next
    case (ExitTransaction exc)
    with assms c show ?thesis
      by (auto simp: invar_def exit_txn_frame split: list.splits frame.splits if_splits)
  next
    case (CallUpdate sql args)
    with assms c show ?thesis
      by (auto simp: invar_def update_frame split: if_splits)
  qed
qed


lemma run_invar:
  "invar c \<Longrightarrow> run drv xs c = Some c1 \<Longrightarrow> invar c1"
proof (induction xs arbitrary: c)
  case Nil
  then show ?case by simp
next
  case (Cons x xs)
  then obtain c2 where s: "step drv x c = Some c2" and r: "run drv xs c2 = Some c1"
    by (auto split: option.splits)
  from step_invar [OF Cons.prems(1) s] r show ?case by (rule Cons.IH)
qed

lemma step_decisions:
  assumes "step drv x (w, stk) = Some (w1, stk1)"
  shows "decisions (trace w1) = decisions (trace w) @
           (case x of
              ExitTransaction exc \<Rightarrow>
                if ctx_transactions w = 1
                then [if exc = None then CommitDecision else RollbackDecision] else []
            | _ \<Rightarrow> [])"
    and "\<forall>exc. x = ExitTransaction exc \<longrightarrow> ctx_transactions w1 = ctx_transactions w - 1"
  using assms
  by (cases x; auto simp: enter_conn_frame enter_txn_frame exit_conn_frame exit_txn_frame
      update_frame split_beta split: list.splits frame.splits)+




lemmas update_defs = update_def update_decorated_def with_connection_def with_transaction_def
  ConnectionCtx_enter_def ConnectionCtx_exit_def Transactions_enter_def Transactions_exit_def
  Transactions_commit_def Dbctx_is_init_def Dbctx_init_def Dbctx_cleanup_def
  LazyConnection_cleanup_def update_body_def ctx_connection_cursor_def
  LazyConnection_cursor_def Engine_connect_def open_cursor_def drv_do_def log_event_def
  ctx_connection_commit_def LazyConnection_commit_def exc_of_def Let_def

section \<open>Claims\<close>

text \<open>
  C4. The claim: on a lazy connection whose raw connection was never opened,
  \<^verbatim>\<open>commit()\<close> and \<^verbatim>\<open>rollback()\<close> do nothing and raise nothing. The code calls
  \<^verbatim>\<open>self.connection.commit()\<close> on \<^verbatim>\<open>None\<close>: both methods raise
  \<^verbatim>\<open>AttributeError\<close>, for every driver and in every state, and so does a transaction
  scope whose body issues no statement, entered right after \<^verbatim>\<open>create_engine\<close>.
\<close>

theorem unopened_commit_rollback_raise:
  "LazyConnection_commit drv \<lparr>connection = None\<rparr> w = (Some AttributeError, w)
   \<and> LazyConnection_rollback drv \<lparr>connection = None\<rparr> w = (Some AttributeError, w)
   \<and> fst (exec drv (WithTransaction Pass)
             (snd (create_engine u p d h pt kw initial_world))) = Inl AttributeError"
  by (simp add: LazyConnection_commit_def LazyConnection_rollback_def create_engine_def
      initial_world_def with_transaction_def Transactions_enter_def Transactions_exit_def
      Dbctx_is_init_def Dbctx_init_def Transactions_commit_def ctx_connection_commit_def
      ctx_connection_rollback_def Dbctx_cleanup_def LazyConnection_cleanup_def exc_of_def)

text \<open>
  C8. A second call of \<^verbatim>\<open>create_engine\<close> after a successful first one raises
  \<^verbatim>\<open>DBError\<close> and leaves the whole state as it was; the engine is still the one the
  first call built from its own arguments.
\<close>

theorem create_engine_twice:
  assumes "create_engine a b c d e k w = (None, w1)"
  shows "create_engine a' b' c' d' e' k' w1 = (Some DBError, w1)
         \<and> engine w1 = Some (Engine (engine_params a b c d e k))"
  using assms by (auto simp: create_engine_def split: if_splits)

theorem create_engine_twice_witness:
  "create_engine (S ''root'') (S ''pw'') (S ''test'') (S ''localhost'') (I 3306) Map.empty
      initial_world
     = (None, snd (create_engine (S ''root'') (S ''pw'') (S ''test'') (S ''localhost'') (I 3306)
                     Map.empty initial_world))
   \<and> create_engine (S ''other'') (S ''x'') (S ''db2'') (S ''h'') (I 1) Map.empty
       (snd (create_engine (S ''root'') (S ''pw'') (S ''test'') (S ''localhost'') (I 3306)
               Map.empty initial_world))
     = (Some DBError,
        snd (create_engine (S ''root'') (S ''pw'') (S ''test'') (S ''localhost'') (I 3306)
               Map.empty initial_world))"
proof -
  have first: "create_engine (S ''root'') (S ''pw'') (S ''test'') (S ''localhost'') (I 3306)
      Map.empty initial_world
     = (None, snd (create_engine (S ''root'') (S ''pw'') (S ''test'') (S ''localhost'') (I 3306)
                     Map.empty initial_world))"
    by (simp add: create_engine_def initial_world_def)
  from create_engine_twice [OF first] first show ?thesis by blast
qed

text \<open>
  C2. A connection scope entered while the context is initialised (as it is inside any
  open scope: the last two conjuncts but one) stores the flag \<open>False\<close> and changes
  nothing: no new lazy connection, the same context. Its exit changes nothing either,
  whatever \<^verbatim>\<open>exc_type\<close> is, so the whole inner scope is its body alone. The flag is
  \<open>True\<close> exactly for the scope that found no connection and created one, and the exit
  of that scope calls \<^verbatim>\<open>_Dbctx.cleanup\<close> on every path.
\<close>

theorem nested_connection_scope:
  assumes "Dbctx_is_init w"
  shows "ConnectionCtx_enter w = (False, w)
       \<and> ConnectionCtx_exit drv False exc w2 = (None, w2)
       \<and> with_connection drv func w = func w
       \<and> exec drv (WithConnection b) w = exec drv b w
       \<and> fst (ConnectionCtx_enter w') = (\<not> Dbctx_is_init w')
       \<and> Dbctx_is_init (snd (ConnectionCtx_enter w'))
       \<and> (\<exists>rest. trace (snd (ConnectionCtx_exit drv True exc w2)) = trace w2 @ Cleanup # rest)"
  using assms
  by (auto simp: scope_defs drv_do_def Let_def split: prod.splits option.splits)

theorem nested_connection_scope_witness:
  "Dbctx_is_init world5
   \<and> ConnectionCtx_enter world5 = (False, world5)
   \<and> ConnectionCtx_exit failing_driver False (Some (UserError 1)) world5 = (None, world5)
   \<and> exec failing_driver (WithConnection (Raise 1)) world5 = (Inl (UserError 1), world5)"
proof -
  have h: "Dbctx_is_init world5"
    by (simp add: Dbctx_is_init_def world5_def)
  have "ConnectionCtx_enter world5 = (False, world5)
       \<and> ConnectionCtx_exit failing_driver False (Some (UserError 1)) world5 = (None, world5)
       \<and> with_connection failing_driver (exec ok_driver (Raise 1)) world5
           = exec ok_driver (Raise 1) world5
       \<and> exec failing_driver (WithConnection (Raise 1)) world5
           = exec failing_driver (Raise 1) world5
       \<and> fst (ConnectionCtx_enter world5) = (\<not> Dbctx_is_init world5)
       \<and> Dbctx_is_init (snd (ConnectionCtx_enter world5))
       \<and> (\<exists>rest. trace (snd (ConnectionCtx_exit failing_driver True (Some (UserError 1)) world5))
             = trace world5 @ Cleanup # rest)"
    by (rule nested_connection_scope [OF h])
  then show ?thesis using h by simp
qed

text \<open>
  C5. The claim: after a failing commit a rollback is issued and the commit error is
  swallowed, and a failing rollback propagates to the caller. In the scope that owns the
  connection the cleanup runs in a \<^verbatim>\<open>finally\<close> block after the rollback: when
  \<^verbatim>\<open>commit\<close> raises error \<open>7\<close>, \<^verbatim>\<open>rollback\<close> raises error \<open>9\<close> and
  \<^verbatim>\<open>close\<close> raises error \<open>5\<close>, the caller gets error \<open>5\<close>, not the rollback's
  error \<open>9\<close>; and so it does when the body raised and the exit calls \<^verbatim>\<open>rollback\<close>
  directly.
\<close>

theorem rollback_error_replaced_counterexample:
  "trace (snd (Transactions_exit close_failing_driver True None world5))
     = [Drv (Connect 0) None, CommitDecision, Drv (Commit 0) (Some 7), Drv (Rollback 0) (Some 9),
        Cleanup, Drv (Close 0) (Some 5)]
   \<and> fst (Transactions_exit close_failing_driver True None world5) = Some (DriverError 5)
   \<and> fst (Transactions_exit close_failing_driver True None world5) \<noteq> Some (DriverError 9)
   \<and> trace (snd (Transactions_exit close_failing_driver True (Some (UserError 1)) world5))
     = [Drv (Connect 0) None, RollbackDecision, Drv (Rollback 0) (Some 9),
        Cleanup, Drv (Close 0) (Some 5)]
   \<and> fst (Transactions_exit close_failing_driver True (Some (UserError 1)) world5)
     = Some (DriverError 5)"
  by (simp add: world5_def close_failing_driver_def scope_defs drv_do_def Let_def)

text \<open>
  C5, as amended. In a transaction scope's exit that brings the depth from \<open>1\<close> to
  \<open>0\<close>, on a connection \<open>c\<close> that is open: when the body returned and the driver's
  \<^verbatim>\<open>commit\<close> raises error \<open>n\<close>, the next driver call is \<^verbatim>\<open>rollback\<close> on the same
  connection \<open>c\<close>, and error \<open>n\<close> is never what the exit raises. When the body raised,
  the exit calls \<^verbatim>\<open>rollback\<close>. In both cases the exit of a scope that does not own
  the connection returns when the rollback returns and raises the rollback's error when
  the rollback raises. The exit of the scope that owns the connection then runs the
  cleanup: when \<^verbatim>\<open>close\<close> returns, the outcome is the same (the rollback's); when
  \<^verbatim>\<open>close\<close> raises, the exit raises the error of \<^verbatim>\<open>close\<close> instead.
\<close>

theorem failing_commit_falls_back:
  assumes "ctx_connection w = Some \<lparr>connection = Some c\<rparr>"
    and "ctx_transactions w = 1"
    and "raises drv (trace w @ [CommitDecision]) (Commit c) = Some n"
  shows "(let tr = trace w @ [CommitDecision, Drv (Commit c) (Some n)];
             rb = raises drv tr (Rollback c);
             cl = raises drv (tr @ [Drv (Rollback c) rb, Cleanup]) (Close c)
         in trace (snd (Transactions_exit drv owner None w))
              = tr @ [Drv (Rollback c) rb] @ (if owner then [Cleanup, Drv (Close c) cl] else [])
          \<and> fst (Transactions_exit drv owner None w)
              = (if owner \<and> cl \<noteq> None then map_option DriverError cl
                 else map_option DriverError rb))
       \<and> (let tr = trace w @ [RollbackDecision];
             rb = raises drv tr (Rollback c);
             cl = raises drv (tr @ [Drv (Rollback c) rb, Cleanup]) (Close c)
         in trace (snd (Transactions_exit drv owner (Some e) w))
              = tr @ [Drv (Rollback c) rb] @ (if owner then [Cleanup, Drv (Close c) cl] else [])
          \<and> fst (Transactions_exit drv owner (Some e) w)
              = (if owner \<and> cl \<noteq> None then map_option DriverError cl
                 else map_option DriverError rb))"
  using assms
  by (auto simp: scope_defs drv_do_def Let_def split: prod.splits option.splits)

theorem failing_commit_falls_back_witness:
  "ctx_connection world5 = Some \<lparr>connection = Some 0\<rparr>
   \<and> ctx_transactions world5 = 1
   \<and> raises failing_driver (trace world5 @ [CommitDecision]) (Commit 0) = Some 7
   \<and> trace (snd (Transactions_exit failing_driver False None world5))
       = [Drv (Connect 0) None, CommitDecision, Drv (Commit 0) (Some 7), Drv (Rollback 0) (Some 9)]
   \<and> fst (Transactions_exit failing_driver False None world5) = Some (DriverError 9)"
proof -
  have h1: "ctx_connection world5 = Some \<lparr>connection = Some 0\<rparr>"
    and h2: "ctx_transactions world5 = 1"
    and h3: "raises failing_driver (trace world5 @ [CommitDecision]) (Commit 0) = Some 7"
    by (simp_all add: world5_def failing_driver_def)
  from failing_commit_falls_back [OF h1 h2 h3, of False]
  show ?thesis using h1 h2 h3 by (simp add: Let_def world5_def failing_driver_def)
qed

text \<open>
  C6. The exit of a transaction scope that owns the connection (flag \<open>True\<close>) does what
  the exit of a scope that does not own it does (the decrement and, at depth \<open>0\<close>, the
  commit or rollback), and then, whatever that raised or returned, calls
  \<^verbatim>\<open>_Dbctx.cleanup\<close>: the \<open>Cleanup\<close> event follows, an open raw connection is closed,
  and the context loses its connection (when \<^verbatim>\<open>close\<close> itself raises, the lazy
  connection stays in the context, without its raw connection). The exit raises what the
  commit or rollback raised, unless \<^verbatim>\<open>close\<close> raises.
\<close>

theorem owner_exit_cleans_up:
  assumes "ctx_connection w = Some self"
  shows "let w2 = snd (Transactions_exit drv False exc w);
             r2 = fst (Transactions_exit drv False exc w);
             w3 = snd (Transactions_exit drv True exc w);
             cl = (case connection self of None \<Rightarrow> None
                   | Some c \<Rightarrow> raises drv (trace w2 @ [Cleanup]) (Close c))
         in trace w3 = trace w2 @ Cleanup #
                         (case connection self of None \<Rightarrow> [] | Some c \<Rightarrow> [Drv (Close c) cl])
          \<and> ctx_connection w3 = (if cl = None then None else Some \<lparr>connection = None\<rparr>)
          \<and> fst (Transactions_exit drv True exc w)
               = (case cl of Some k \<Rightarrow> Some (DriverError k) | None \<Rightarrow> r2)"
  using assms
  apply (cases self)
  apply (auto simp: scope_defs drv_do_def Let_def split: prod.splits option.splits)
  done

theorem owner_exit_cleans_up_witness:
  "ctx_connection world5 = Some \<lparr>connection = Some 0\<rparr>
   \<and> fst (Transactions_exit failing_driver False None world5) = Some (DriverError 9)
   \<and> trace (snd (Transactions_exit failing_driver True None world5))
       = [Drv (Connect 0) None, CommitDecision, Drv (Commit 0) (Some 7), Drv (Rollback 0) (Some 9),
          Cleanup, Drv (Close 0) None]
   \<and> ctx_connection (snd (Transactions_exit failing_driver True None world5)) = None
   \<and> fst (Transactions_exit failing_driver True None world5) = Some (DriverError 9)"
proof -
  have h1: "ctx_connection world5 = Some \<lparr>connection = Some 0\<rparr>"
    by (simp add: world5_def)
  have t2: "trace (snd (Transactions_exit failing_driver False None world5))
       = [Drv (Connect 0) None, CommitDecision, Drv (Commit 0) (Some 7), Drv (Rollback 0) (Some 9)]"
    and r2: "fst (Transactions_exit failing_driver False None world5) = Some (DriverError 9)"
    by (simp_all add: world5_def failing_driver_def scope_defs drv_do_def Let_def)
  have cl: "raises failing_driver xs (Close 0) = None" for xs
    by (simp add: failing_driver_def)
  from owner_exit_cleans_up [OF h1, of failing_driver None]
  show ?thesis using h1 t2 r2 cl by (simp add: Let_def)
qed

text \<open>
  C9. The claim: a record is read-only after construction. \<^verbatim>\<open>Field\<close> defines
  \<^verbatim>\<open>__setattr__\<close> as \<^verbatim>\<open>self[key] = value\<close> (its docstring: "like: x.key = value"), so
  an attribute assignment changes the mapping: the record built for the row
  \<open>(2, kuang)\<close> is another one after \<^verbatim>\<open>r.username = 'x'\<close>.
\<close>

theorem record_is_mutable_counterexample:
  "Field_setattr (Field_init [''id'', ''username''] [I 2, S ''kuang''] []) ''username'' (S ''x'')
     \<noteq> Field_init [''id'', ''username''] [I 2, S ''kuang''] []
   \<and> Field_getattr (Field_init [''id'', ''username''] [I 2, S ''kuang''] []) ''username''
       = Inr (S ''kuang'')
   \<and> Field_getattr (Field_setattr (Field_init [''id'', ''username''] [I 2, S ''kuang''] [])
         ''username'' (S ''x'')) ''username'' = Inr (S ''x'')"
  by (simp add: Field_setattr_def Field_init_def Field_getattr_def Field_getitem_def)

text \<open>
  C9, as amended. An attribute assignment \<^verbatim>\<open>r.k = v\<close> stores \<open>v\<close> under \<open>k\<close>: reading
  \<open>k\<close> then gives \<open>v\<close>, every other name reads as before, and the columns keep their
  order, with \<open>k\<close> appended when it is new.
\<close>

theorem setattr_stores:
  "Field_getattr (Field_setattr r k v) k = Inr v
   \<and> (k' \<noteq> k \<longrightarrow> Field_getattr (Field_setattr r k v) k' = Field_getattr r k')
   \<and> map fst (Field_setattr r k v) = (if k \<in> set (map fst r) then map fst r else map fst r @ [k])"
  by (simp add: Field_getattr_conv Field_setattr_def update_conv' update_keys)

theorem setattr_stores_witness:
  "''id'' \<noteq> ''username''
   \<and> Field_getattr (Field_setattr [(''id'', I 2), (''username'', S ''kuang'')] ''username'' (S ''x'')) ''id''
       = Inr (I 2)"
proof -
  have ne: "''id'' \<noteq> ''username''" by simp
  from setattr_stores [of "[(''id'', I 2), (''username'', S ''kuang'')]" "''username''" "S ''x''" "''id''"] ne
  show ?thesis by (simp add: Field_getattr_conv)
qed

text \<open>
  C10. The claim: \<^verbatim>\<open>r.n\<close> raises \<^verbatim>\<open>AssertionError\<close> for every name that is not a
  column, and returns the stored value for every name that is. \<^verbatim>\<open>__getattr__\<close> is
  called only for names the normal lookup does not find, and \<^verbatim>\<open>Field\<close> inherits the
  methods of \<^verbatim>\<open>dict\<close>: \<^verbatim>\<open>r.items\<close> is the bound method although the row has no
  column \<open>items\<close>, and for a row with a column \<open>keys\<close>, \<^verbatim>\<open>r.keys\<close> is the bound
  method, not the stored value.
\<close>

theorem attribute_lookup_counterexample:
  "''items'' \<notin> set (map fst (Field_init [''id''] [I 1] []))
   \<and> attribute dict_methods (Field_init [''id''] [I 1] []) ''items'' \<noteq> Inl AssertionError
   \<and> map_of (Field_init [''keys''] [I 1] []) ''keys'' = Some (I 1)
   \<and> attribute dict_methods (Field_init [''keys''] [I 1] []) ''keys'' \<noteq> Inr (Stored (I 1))"
  by (simp add: attribute_def dict_methods_def Field_init_def)

text \<open>
  C10, as amended. For a name \<open>n\<close> that the normal lookup does not find (no attribute of
  the classes \<^verbatim>\<open>Field\<close>, \<^verbatim>\<open>dict\<close>, \<^verbatim>\<open>object\<close>): \<^verbatim>\<open>r.n\<close> raises
  \<^verbatim>\<open>AssertionError\<close> when \<open>n\<close> is not a column and returns the stored value when it is.
  For a name of the class, \<^verbatim>\<open>r.n\<close> is the class's attribute, column or not.
\<close>

theorem attribute_lookup:
  "(n \<notin> set class_attrs \<and> n \<notin> set (map fst r) \<longrightarrow> attribute class_attrs r n = Inl AssertionError)
   \<and> (n \<notin> set class_attrs \<and> map_of r n = Some v \<longrightarrow> attribute class_attrs r n = Inr (Stored v))
   \<and> (n \<in> set class_attrs \<longrightarrow> attribute class_attrs r n = Inr (ClassAttr n))"
proof -
  have "n \<notin> set (map fst r) \<Longrightarrow> map_of r n = None"
    by (simp add: map_of_eq_None_iff)
  then show ?thesis
    by (auto simp: attribute_def Field_getattr_conv)
qed

theorem attribute_lookup_witness:
  "''email'' \<notin> set dict_methods \<and> ''email'' \<notin> set (map fst [(''id'', I 2)])
   \<and> attribute dict_methods [(''id'', I 2)] ''email'' = Inl AssertionError
   \<and> ''id'' \<notin> set dict_methods \<and> map_of [(''id'', I 2)] ''id'' = Some (I 2)
   \<and> attribute dict_methods [(''id'', I 2)] ''id'' = Inr (Stored (I 2))
   \<and> ''keys'' \<in> set dict_methods
   \<and> attribute dict_methods [(''id'', I 2)] ''keys'' = Inr (ClassAttr ''keys'')"
proof -
  have a: "''email'' \<notin> set dict_methods" and b: "''email'' \<notin> set (map fst [(''id'', I 2)])"
    and c: "''id'' \<notin> set dict_methods" and d: "map_of [(''id'', I 2)] ''id'' = Some (I 2)"
    and e: "''keys'' \<in> set dict_methods"
    by (simp_all add: dict_methods_def)
  from attribute_lookup [of "''email''" dict_methods "[(''id'', I 2)]"]
    attribute_lookup [of "''id''" dict_methods "[(''id'', I 2)]" "I 2"]
    attribute_lookup [of "''keys''" dict_methods "[(''id'', I 2)]"]
    a b c d e
  show ?thesis by simp
qed

text \<open>
  C3. In every configuration reached from a fresh context by a well-nested sequence of
  connection-scope and transaction-scope enters and exits (and calls of \<^verbatim>\<open>update\<close>
  between them): the depth is the number of open transaction scopes, so it is never
  negative; a positive depth means the context holds a connection; and whatever step comes
  next, it adds a commit-or-rollback decision only when it is a transaction scope's exit
  that takes the depth from \<open>1\<close> to \<open>0\<close> (and then exactly one: commit when
  \<^verbatim>\<open>exc_type\<close> is \<open>None\<close>, rollback otherwise).
\<close>

theorem reachable_invariant:
  assumes "Dbctx_new w0" and "run drv ops (w0, []) = Some (w, stk)"
  shows "ctx_transactions w = int (length (filter is_txn stk))
       \<and> 0 \<le> ctx_transactions w
       \<and> (0 < ctx_transactions w \<longrightarrow> Dbctx_is_init w)
       \<and> (\<forall>x w1 stk1. step drv x (w, stk) = Some (w1, stk1) \<longrightarrow>
            decisions (trace w1) = decisions (trace w) @
              (case x of
                 ExitTransaction exc \<Rightarrow>
                   if ctx_transactions w = 1
                   then [if exc = None then CommitDecision else RollbackDecision] else []
               | _ \<Rightarrow> [])
            \<and> (decisions (trace w1) \<noteq> decisions (trace w) \<longrightarrow>
                 (\<exists>exc. x = ExitTransaction exc) \<and> ctx_transactions w = 1 \<and> ctx_transactions w1 = 0))"
proof -
  have "invar (w0, [])"
    using assms(1) by (simp add: invar_def Dbctx_new_def)
  from run_invar [OF this assms(2)] have inv: "invar (w, stk)" .
  then have depth: "ctx_transactions w = int (length (filter is_txn stk))"
    by (simp add: invar_def)
  have init: "0 < ctx_transactions w \<longrightarrow> Dbctx_is_init w"
    using inv by (auto simp: invar_def)
  have dec: "decisions (trace w1) = decisions (trace w) @
              (case x of
                 ExitTransaction exc \<Rightarrow>
                   if ctx_transactions w = 1
                   then [if exc = None then CommitDecision else RollbackDecision] else []
               | _ \<Rightarrow> [])
            \<and> (decisions (trace w1) \<noteq> decisions (trace w) \<longrightarrow>
                 (\<exists>exc. x = ExitTransaction exc) \<and> ctx_transactions w = 1 \<and> ctx_transactions w1 = 0)"
    if "step drv x (w, stk) = Some (w1, stk1)" for x w1 stk1
    using step_decisions [OF that] by (cases x) (auto split: if_splits)
  from depth init dec show ?thesis by simp
qed


theorem reachable_invariant_witness:
  "Dbctx_new started_world
   \<and> run ok_driver [EnterTransaction, EnterConnection, EnterTransaction] (started_world, [])
       = Some (started_world\<lparr>ctx_connection := Some \<lparr>connection = None\<rparr>, ctx_transactions := 2\<rparr>,
               [TxnFrame False, ConnFrame False, TxnFrame True])
   \<and> Dbctx_is_init (started_world\<lparr>ctx_connection := Some \<lparr>connection = None\<rparr>, ctx_transactions := 2\<rparr>)"
proof -
  have new: "Dbctx_new started_world"
    by (simp add: Dbctx_new_def started_world_def create_engine_def initial_world_def)
  have r: "run ok_driver [EnterTransaction, EnterConnection, EnterTransaction] (started_world, [])
       = Some (started_world\<lparr>ctx_connection := Some \<lparr>connection = None\<rparr>, ctx_transactions := 2\<rparr>,
               [TxnFrame False, ConnFrame False, TxnFrame True])"
    by (simp add: started_world_def create_engine_def initial_world_def Transactions_enter_def
        ConnectionCtx_enter_def Dbctx_is_init_def Dbctx_init_def)
  from reachable_invariant [OF new r] new r show ?thesis by simp
qed





text \<open>
  C7. The claim: \<^verbatim>\<open>update\<close> commits right after the statement exactly at depth
  \<open>0\<close> and in both cases returns the affected-row count; \<^verbatim>\<open>insert\<close> delegates to
  \<^verbatim>\<open>update\<close>. The row count is returned only when the calls that follow
  \<^verbatim>\<open>execute\<close> return: at depth \<open>0\<close>, with a driver where only
  \<^verbatim>\<open>cursor.close()\<close> raises, the statement is executed and committed, and
  \<^verbatim>\<open>update\<close> raises the error of \<^verbatim>\<open>cursor.close()\<close> from its \<^verbatim>\<open>finally\<close>
  block. And \<^verbatim>\<open>insert\<close> with no column raises \<^verbatim>\<open>ValueError\<close> before it reaches
  \<^verbatim>\<open>update\<close>.
\<close>

theorem update_raises_after_commit_counterexample:
  "ctx_transactions started_world = 0
   \<and> trace (snd (update cursor_close_failing_driver ''update t set a=?'' [I 1] started_world))
       = [Drv (Connect 0) None, Drv (Cursor 0) None,
          Drv (Execute 0 ''update t set a=%s'' [I 1]) None, Drv (Commit 0) None,
          Drv (CursorClose 0) (Some 6), Cleanup, Drv (Close 0) None]
   \<and> fst (update cursor_close_failing_driver ''update t set a=?'' [I 1] started_world)
       = Inl (DriverError 6)
   \<and> insert_stmt ok_driver ''users'' [] started_world = (Inl ValueError, started_world)"
  by (simp add: started_world_def create_engine_def initial_world_def
      cursor_close_failing_driver_def update_defs replace_placeholders_def insert_stmt_def)

text \<open>
  C7, as amended. Once \<^verbatim>\<open>create_engine\<close> has run, for a call of \<^verbatim>\<open>update\<close> whose
  cursor is obtained and whose statement is executed without an exception (opening the
  connection first when this is its first cursor):
  \<^item> inside a scope, the driver's \<^verbatim>\<open>commit\<close> is called right after \<^verbatim>\<open>execute\<close>
    exactly when the depth is \<open>0\<close>; at any other depth \<^verbatim>\<open>update\<close> issues no commit;
    then the cursor is closed. \<^verbatim>\<open>update\<close> returns the row count the driver reports
    after \<^verbatim>\<open>execute\<close> when the commit (at depth \<open>0\<close>) and \<^verbatim>\<open>cursor.close()\<close>
    return, and raises the error of the last of them that raised otherwise;
  \<^item> outside every scope, \<^verbatim>\<open>update\<close> runs in a connection scope of its own, at
    depth \<open>0\<close>: it commits, closes the cursor, and the cleanup closes the connection;
    it returns the row count when all three return, and raises the error of the last
    that raised otherwise;
  \<^item> wrapped in a transaction scope at top level, with a driver whose calls all return,
    \<^verbatim>\<open>update\<close> issues no commit; the commit comes from the scope's exit, after
    \<^verbatim>\<open>update\<close> has returned, and the row count is returned.
  \<^verbatim>\<open>insert\<close> with at least one column and no column named \<open>table_name\<close> is
  \<^verbatim>\<open>update\<close> of the statement it builds; with no column it raises
  \<^verbatim>\<open>ValueError\<close>, and with a column named \<open>table_name\<close> \<^verbatim>\<open>TypeError\<close>.
\<close>

theorem update_autocommit:
  assumes eng: "engine w \<noteq> None"
  shows "(\<forall>self. ctx_connection w = Some self \<longrightarrow>
           (let c = (case connection self of None \<Rightarrow> length (trace w) | Some c' \<Rightarrow> c');
                opening = (case connection self of None \<Rightarrow> [Drv (Connect c) None] | Some c' \<Rightarrow> []);
                sql1 = replace_placeholders sql;
                executed = trace w @ opening @
                   [Drv (Cursor c) None, Drv (Execute c sql1 args) None];
                cm = raises drv executed (Commit c);
                committed = (if ctx_transactions w = 0 then [Drv (Commit c) cm] else []);
                cc = raises drv (executed @ committed) (CursorClose c)
            in (connection self = None \<longrightarrow> raises drv (trace w) (Connect c) = None)
               \<and> raises drv (trace w @ opening) (Cursor c) = None
               \<and> raises drv (trace w @ opening @ [Drv (Cursor c) None]) (Execute c sql1 args) = None
               \<longrightarrow>
                 trace (snd (update drv sql args w))
                   = executed @ committed @ [Drv (CursorClose c) cc]
               \<and> fst (update drv sql args w)
                   = (case cc of
                        Some k \<Rightarrow> Inl (DriverError k)
                      | None \<Rightarrow>
                          (if ctx_transactions w = 0
                           then (case cm of Some k \<Rightarrow> Inl (DriverError k)
                                 | None \<Rightarrow> Inr (rowcount drv executed))
                           else Inr (rowcount drv executed)))))
       \<and> (ctx_connection w = None \<longrightarrow>
           (let c = length (trace w);
                sql1 = replace_placeholders sql;
                executed = trace w @
                   [Drv (Connect c) None, Drv (Cursor c) None, Drv (Execute c sql1 args) None];
                cm = raises drv executed (Commit c);
                cc = raises drv (executed @ [Drv (Commit c) cm]) (CursorClose c);
                cl = raises drv (executed @ [Drv (Commit c) cm, Drv (CursorClose c) cc, Cleanup])
                       (Close c)
            in raises drv (trace w) (Connect c) = None
               \<and> raises drv (trace w @ [Drv (Connect c) None]) (Cursor c) = None
               \<and> raises drv (trace w @ [Drv (Connect c) None, Drv (Cursor c) None])
                    (Execute c sql1 args) = None
               \<longrightarrow>
                 trace (snd (update drv sql args w))
                   = executed @ [Drv (Commit c) cm, Drv (CursorClose c) cc, Cleanup,
                                 Drv (Close c) cl]
               \<and> fst (update drv sql args w)
                   = (case cl of
                        Some k \<Rightarrow> Inl (DriverError k)
                      | None \<Rightarrow>
                          (case cc of
                             Some k \<Rightarrow> Inl (DriverError k)
                           | None \<Rightarrow>
                               (case cm of Some k \<Rightarrow> Inl (DriverError k)
                                | None \<Rightarrow> Inr (rowcount drv executed))))))
       \<and> (ctx_connection w = None \<and> (\<forall>h c. raises drv h c = None) \<longrightarrow>
           (let c = length (trace w);
                executed = trace w @
                   [Drv (Connect c) None, Drv (Cursor c) None,
                    Drv (Execute c (replace_placeholders sql) args) None]
            in trace (snd (with_transaction drv (update drv sql args) w))
                 = executed @ [Drv (CursorClose c) None, CommitDecision, Drv (Commit c) None,
                               Cleanup, Drv (Close c) None]
             \<and> fst (with_transaction drv (update drv sql args) w) = Inr (rowcount drv executed)))
       \<and> (kwargs \<noteq> [] \<and> distinct (map fst kwargs) \<and> ''table_name'' \<notin> set (map fst kwargs) \<longrightarrow>
            insert_stmt drv table_name kwargs w
              = update drv (insert_sql table_name (map fst kwargs)) (map snd kwargs) w)
       \<and> insert_stmt drv table_name [] w = (Inl ValueError, w)
       \<and> (''table_name'' \<in> set (map fst kwargs) \<longrightarrow>
            insert_stmt drv table_name kwargs w = (Inl TypeError, w))"
proof -
  obtain e where e [simp]: "engine w = Some e" using eng by auto
  have inside: "(let c = (case connection self of None \<Rightarrow> length (trace w) | Some c' \<Rightarrow> c');
                opening = (case connection self of None \<Rightarrow> [Drv (Connect c) None] | Some c' \<Rightarrow> []);
                sql1 = replace_placeholders sql;
                executed = trace w @ opening @
                   [Drv (Cursor c) None, Drv (Execute c sql1 args) None];
                cm = raises drv executed (Commit c);
                committed = (if ctx_transactions w = 0 then [Drv (Commit c) cm] else []);
                cc = raises drv (executed @ committed) (CursorClose c)
            in (connection self = None \<longrightarrow> raises drv (trace w) (Connect c) = None)
               \<and> raises drv (trace w @ opening) (Cursor c) = None
               \<and> raises drv (trace w @ opening @ [Drv (Cursor c) None]) (Execute c sql1 args) = None
               \<longrightarrow>
                 trace (snd (update drv sql args w))
                   = executed @ committed @ [Drv (CursorClose c) cc]
               \<and> fst (update drv sql args w)
                   = (case cc of
                        Some k \<Rightarrow> Inl (DriverError k)
                      | None \<Rightarrow>
                          (if ctx_transactions w = 0
                           then (case cm of Some k \<Rightarrow> Inl (DriverError k)
                                 | None \<Rightarrow> Inr (rowcount drv executed))
                           else Inr (rowcount drv executed))))"
    if "ctx_connection w = Some self" for self
    using that
    by (cases self; cases "connection self")
       (auto simp: update_def update_decorated_def with_connection_def ConnectionCtx_enter_def
         ConnectionCtx_exit_def Dbctx_is_init_def update_body_def ctx_connection_cursor_def
         LazyConnection_cursor_def Engine_connect_def open_cursor_def drv_do_def log_event_def
         ctx_connection_commit_def LazyConnection_commit_def exc_of_def Let_def
         split: option.splits)
  have outside: "(let c = length (trace w);
                sql1 = replace_placeholders sql;
                executed = trace w @
                   [Drv (Connect c) None, Drv (Cursor c) None, Drv (Execute c sql1 args) None];
                cm = raises drv executed (Commit c);
                cc = raises drv (executed @ [Drv (Commit c) cm]) (CursorClose c);
                cl = raises drv (executed @ [Drv (Commit c) cm, Drv (CursorClose c) cc, Cleanup])
                       (Close c)
            in raises drv (trace w) (Connect c) = None
               \<and> raises drv (trace w @ [Drv (Connect c) None]) (Cursor c) = None
               \<and> raises drv (trace w @ [Drv (Connect c) None, Drv (Cursor c) None])
                    (Execute c sql1 args) = None
               \<longrightarrow>
                 trace (snd (update drv sql args w))
                   = executed @ [Drv (Commit c) cm, Drv (CursorClose c) cc, Cleanup,
                                 Drv (Close c) cl]
               \<and> fst (update drv sql args w)
                   = (case cl of
                        Some k \<Rightarrow> Inl (DriverError k)
                      | None \<Rightarrow>
                          (case cc of
                             Some k \<Rightarrow> Inl (DriverError k)
                           | None \<Rightarrow>
                               (case cm of Some k \<Rightarrow> Inl (DriverError k)
                                | None \<Rightarrow> Inr (rowcount drv executed)))))"
    if "ctx_connection w = None"
    using that
    by (auto simp: update_def update_decorated_def with_connection_def
         ConnectionCtx_enter_def ConnectionCtx_exit_def Dbctx_is_init_def Dbctx_init_def
         Dbctx_cleanup_def LazyConnection_cleanup_def update_body_def ctx_connection_cursor_def
         LazyConnection_cursor_def Engine_connect_def open_cursor_def drv_do_def log_event_def
         ctx_connection_commit_def LazyConnection_commit_def exc_of_def Let_def
         split: option.splits)
  have deferred: "(let c = length (trace w);
                executed = trace w @
                   [Drv (Connect c) None, Drv (Cursor c) None,
                    Drv (Execute c (replace_placeholders sql) args) None]
            in trace (snd (with_transaction drv (update drv sql args) w))
                 = executed @ [Drv (CursorClose c) None, CommitDecision, Drv (Commit c) None,
                               Cleanup, Drv (Close c) None]
             \<and> fst (with_transaction drv (update drv sql args) w) = Inr (rowcount drv executed))"
    if "ctx_connection w = None" and "\<forall>h c. raises drv h c = None"
    using that by (simp add: update_defs)
  have ins: "kwargs \<noteq> [] \<and> distinct (map fst kwargs) \<and> ''table_name'' \<notin> set (map fst kwargs) \<longrightarrow>
            insert_stmt drv table_name kwargs w
              = update drv (insert_sql table_name (map fst kwargs)) (map snd kwargs) w"
    "insert_stmt drv table_name [] w = (Inl ValueError, w)"
    "''table_name'' \<in> set (map fst kwargs) \<longrightarrow>
            insert_stmt drv table_name kwargs w = (Inl TypeError, w)"
    by (simp_all add: insert_stmt_def update_def)
  from inside outside deferred ins show ?thesis by blast
qed


theorem update_autocommit_witness:
  "engine world5 \<noteq> None
   \<and> ctx_connection world5 = Some \<lparr>connection = Some 0\<rparr>
   \<and> raises ok_driver (trace world5) (Cursor 0) = None
   \<and> raises ok_driver (trace world5 @ [Drv (Cursor 0) None])
        (Execute 0 ''update t set a=%s'' [I 1]) = None
   \<and> trace (snd (update ok_driver ''update t set a=?'' [I 1] world5))
       = [Drv (Connect 0) None, Drv (Cursor 0) None,
          Drv (Execute 0 ''update t set a=%s'' [I 1]) None, Drv (CursorClose 0) None]
   \<and> fst (update ok_driver ''update t set a=?'' [I 1] world5) = Inr 1
   \<and> trace (snd (update ok_driver ''update t set a=?'' [I 1] (world5\<lparr>ctx_transactions := 0\<rparr>)))
       = [Drv (Connect 0) None, Drv (Cursor 0) None,
          Drv (Execute 0 ''update t set a=%s'' [I 1]) None, Drv (Commit 0) None,
          Drv (CursorClose 0) None]
   \<and> engine started_world \<noteq> None
   \<and> ctx_connection started_world = None
   \<and> (\<forall>h c. raises ok_driver h c = None)
   \<and> trace (snd (update ok_driver ''update t set a=?'' [I 1] started_world))
       = [Drv (Connect 0) None, Drv (Cursor 0) None,
          Drv (Execute 0 ''update t set a=%s'' [I 1]) None, Drv (Commit 0) None,
          Drv (CursorClose 0) None, Cleanup, Drv (Close 0) None]
   \<and> trace (snd (with_transaction ok_driver (update ok_driver ''update t set a=?'' [I 1])
                    started_world))
       = [Drv (Connect 0) None, Drv (Cursor 0) None,
          Drv (Execute 0 ''update t set a=%s'' [I 1]) None, Drv (CursorClose 0) None,
          CommitDecision, Drv (Commit 0) None, Cleanup, Drv (Close 0) None]
   \<and> [(''username'', S ''guowei'')] \<noteq> []
   \<and> distinct (map fst [(''username'', S ''guowei'')])
   \<and> ''table_name'' \<notin> set (map fst [(''username'', S ''guowei'')])
   \<and> insert_stmt ok_driver ''users'' [(''username'', S ''guowei'')] started_world
       = update ok_driver ''insert into `users` (`username`) values(?)'' [S ''guowei''] started_world
   \<and> ''table_name'' \<in> set (map fst [(''table_name'', S ''x'')])
   \<and> insert_stmt ok_driver ''users'' [(''table_name'', S ''x'')] started_world
       = (Inl TypeError, started_world)"
proof -
  have ok: "\<forall>h c. raises ok_driver h c = None"
    by (simp add: ok_driver_def)
  have e5: "engine world5 \<noteq> None" and c5: "ctx_connection world5 = Some \<lparr>connection = Some 0\<rparr>"
    and d5: "ctx_transactions world5 = 1" and t5: "trace world5 = [Drv (Connect 0) None]"
    by (simp_all add: world5_def)
  let ?w0 = "world5\<lparr>ctx_transactions := 0\<rparr>"
  have e0: "engine ?w0 \<noteq> None" and c0: "ctx_connection ?w0 = Some \<lparr>connection = Some 0\<rparr>"
    and d0: "ctx_transactions ?w0 = 0" and t0: "trace ?w0 = [Drv (Connect 0) None]"
    by (simp_all add: world5_def)
  have es: "engine started_world \<noteq> None" and cs: "ctx_connection started_world = None"
    and ts: "trace started_world = []"
    by (simp_all add: started_world_def create_engine_def initial_world_def)
  have rc: "rowcount ok_driver h = 1" for h by (simp add: ok_driver_def)
  have rp: "replace_placeholders ''update t set a=?'' = ''update t set a=%s''"
    by (simp add: replace_placeholders_def)
  have sq: "insert_sql ''users'' [''username''] = ''insert into `users` (`username`) values(?)''"
    by (simp add: insert_sql_def)
  have k1: "[(''username'', S ''guowei'')] \<noteq> []
      \<and> distinct (map fst [(''username'', S ''guowei'')])
      \<and> ''table_name'' \<notin> set (map fst [(''username'', S ''guowei'')])" by simp
  have k2: "''table_name'' \<in> set (map fst [(''table_name'', S ''x'')])" by simp
  note a = update_autocommit [OF e5, where sql = "''update t set a=?''" and drv = ok_driver
      and args = "[I 1]" and kwargs = "[(''username'', S ''guowei'')]"
      and table_name = "''users''"]
  note b = update_autocommit [OF e0, where sql = "''update t set a=?''" and drv = ok_driver
      and args = "[I 1]" and kwargs = "[(''username'', S ''guowei'')]"
      and table_name = "''users''"]
  note c = update_autocommit [OF es, where sql = "''update t set a=?''" and drv = ok_driver
      and args = "[I 1]" and kwargs = "[(''username'', S ''guowei'')]"
      and table_name = "''users''"]
  note d = update_autocommit [OF es, where sql = "''update t set a=?''" and drv = ok_driver
      and args = "[I 1]" and kwargs = "[(''table_name'', S ''x'')]"
      and table_name = "''users''"]
  from a c5 d5 t5 ok rc rp
  have A: "trace (snd (update ok_driver ''update t set a=?'' [I 1] world5))
       = [Drv (Connect 0) None, Drv (Cursor 0) None,
          Drv (Execute 0 ''update t set a=%s'' [I 1]) None, Drv (CursorClose 0) None]
     \<and> fst (update ok_driver ''update t set a=?'' [I 1] world5) = Inr 1"
    by (simp add: Let_def)
  from b c0 d0 t0 ok rc rp
  have B: "trace (snd (update ok_driver ''update t set a=?'' [I 1] ?w0))
       = [Drv (Connect 0) None, Drv (Cursor 0) None,
          Drv (Execute 0 ''update t set a=%s'' [I 1]) None, Drv (Commit 0) None,
          Drv (CursorClose 0) None]"
    by (simp add: Let_def)
  from c cs ts ok rc rp sq k1
  have C: "trace (snd (update ok_driver ''update t set a=?'' [I 1] started_world))
       = [Drv (Connect 0) None, Drv (Cursor 0) None,
          Drv (Execute 0 ''update t set a=%s'' [I 1]) None, Drv (Commit 0) None,
          Drv (CursorClose 0) None, Cleanup, Drv (Close 0) None]
     \<and> trace (snd (with_transaction ok_driver (update ok_driver ''update t set a=?'' [I 1])
                    started_world))
       = [Drv (Connect 0) None, Drv (Cursor 0) None,
          Drv (Execute 0 ''update t set a=%s'' [I 1]) None, Drv (CursorClose 0) None,
          CommitDecision, Drv (Commit 0) None, Cleanup, Drv (Close 0) None]
     \<and> insert_stmt ok_driver ''users'' [(''username'', S ''guowei'')] started_world
       = update ok_driver ''insert into `users` (`username`) values(?)'' [S ''guowei''] started_world"
    by (simp add: Let_def)
  from d k2
  have D: "insert_stmt ok_driver ''users'' [(''table_name'', S ''x'')] started_world
       = (Inl TypeError, started_world)"
    by simp
  from A B C D e5 c5 t5 es cs ok k1 k2 show ?thesis by simp
qed

end
